theory Spec2Isabelle
  imports Complex_Main "HOL-Library.Signed_Division"
begin

section \<open>Photo-disintegration module: shallow embedding\<close>

text \<open>
  The theory embeds \<^verbatim>\<open>src/module/PhotoDisintegration.cpp\<close>: the rate-table loader
  \<^verbatim>\<open>init\<close>, the Monte Carlo selector \<^verbatim>\<open>setNextInteraction\<close>, the executor
  \<^verbatim>\<open>performInteraction\<close> and the estimator \<^verbatim>\<open>energyLossLength\<close>.
\<close>

subsection \<open>Double-precision values\<close>

text \<open>
  A C++ \<^verbatim>\<open>double\<close> is a finite real, one of the two infinities, or not-a-number.
  Arithmetic on finite values is exact here (rounding and overflow of finite results are
  not modelled), the special values follow IEEE 754, and a zero divisor counts as
  positive zero. Comparisons with not-a-number are false.
\<close>

datatype double = Fin real | PInf | NInf | NaN

definition DBL_MAX :: real where
  "DBL_MAX = (2 - 1 / 2 ^ 52) * 2 ^ 1023"

fun dneg :: "double \<Rightarrow> double" where
  "dneg (Fin a) = Fin (- a)"
| "dneg PInf = NInf"
| "dneg NInf = PInf"
| "dneg NaN = NaN"

fun dadd :: "double \<Rightarrow> double \<Rightarrow> double" where
  "dadd (Fin a) (Fin b) = Fin (a + b)"
| "dadd NaN _ = NaN"
| "dadd _ NaN = NaN"
| "dadd PInf NInf = NaN"
| "dadd NInf PInf = NaN"
| "dadd PInf _ = PInf"
| "dadd _ PInf = PInf"
| "dadd NInf _ = NInf"
| "dadd _ NInf = NInf"

fun dmul :: "double \<Rightarrow> double \<Rightarrow> double" where
  "dmul (Fin a) (Fin b) = Fin (a * b)"
| "dmul NaN _ = NaN"
| "dmul _ NaN = NaN"
| "dmul (Fin a) PInf = (if 0 < a then PInf else if a < 0 then NInf else NaN)"
| "dmul (Fin a) NInf = (if 0 < a then NInf else if a < 0 then PInf else NaN)"
| "dmul PInf (Fin b) = (if 0 < b then PInf else if b < 0 then NInf else NaN)"
| "dmul NInf (Fin b) = (if 0 < b then NInf else if b < 0 then PInf else NaN)"
| "dmul PInf PInf = PInf"
| "dmul PInf NInf = NInf"
| "dmul NInf PInf = NInf"
| "dmul NInf NInf = PInf"

fun ddiv :: "double \<Rightarrow> double \<Rightarrow> double" where
  "ddiv (Fin a) (Fin b) =
     (if b \<noteq> 0 then Fin (a / b)
      else if 0 < a then PInf else if a < 0 then NInf else NaN)"
| "ddiv NaN _ = NaN"
| "ddiv _ NaN = NaN"
| "ddiv (Fin a) PInf = Fin 0"
| "ddiv (Fin a) NInf = Fin 0"
| "ddiv PInf (Fin b) = (if 0 \<le> b then PInf else NInf)"
| "ddiv NInf (Fin b) = (if 0 \<le> b then NInf else PInf)"
| "ddiv PInf PInf = NaN"
| "ddiv PInf NInf = NaN"
| "ddiv NInf PInf = NaN"
| "ddiv NInf NInf = NaN"

text \<open>\<^verbatim>\<open>a > b\<close>, \<^verbatim>\<open>a <= b\<close> and \<^verbatim>\<open>a >= b\<close> on doubles.\<close>

fun dgt :: "double \<Rightarrow> double \<Rightarrow> bool" where
  "dgt (Fin a) (Fin b) = (b < a)"
| "dgt NaN _ = False"
| "dgt _ NaN = False"
| "dgt PInf PInf = False"
| "dgt PInf _ = True"
| "dgt NInf _ = False"
| "dgt (Fin a) NInf = True"
| "dgt (Fin a) PInf = False"

fun dle :: "double \<Rightarrow> double \<Rightarrow> bool" where
  "dle (Fin a) (Fin b) = (a \<le> b)"
| "dle NaN _ = False"
| "dle _ NaN = False"
| "dle NInf _ = True"
| "dle _ PInf = True"
| "dle PInf _ = False"
| "dle (Fin a) NInf = False"

definition dge :: "double \<Rightarrow> double \<Rightarrow> bool" where
  "dge a b = dle b a"

text \<open>\<^verbatim>\<open>log\<close> and \<^verbatim>\<open>log10\<close> of \<^verbatim>\<open><cmath>\<close>.\<close>

fun dlog :: "double \<Rightarrow> double" where
  "dlog (Fin a) = (if 0 < a then Fin (ln a) else if a = 0 then NInf else NaN)"
| "dlog PInf = PInf"
| "dlog NInf = NaN"
| "dlog NaN = NaN"

fun dlog10 :: "double \<Rightarrow> double" where
  "dlog10 (Fin a) = (if 0 < a then Fin (log 10 a) else if a = 0 then NInf else NaN)"
| "dlog10 PInf = PInf"
| "dlog10 NInf = NaN"
| "dlog10 NaN = NaN"

definition double_of_int :: "int \<Rightarrow> double" where
  "double_of_int n = Fin (of_int n)"

text \<open>The value of a finite double, and the sum of a list of doubles (used in statements).\<close>

fun real_of_double :: "double \<Rightarrow> real" where
  "real_of_double (Fin a) = a"
| "real_of_double _ = 0"

fun dsum :: "double list \<Rightarrow> double" where
  "dsum [] = Fin 0"
| "dsum (x # xs) = dadd x (dsum xs)"

text \<open>
  Conversion of an \<^verbatim>\<open>int\<close> to \<^verbatim>\<open>size_t\<close> (64 bits), as in the comparison
  \<^verbatim>\<open>i < nNeutron\<close> of a \<^verbatim>\<open>size_t\<close> counter with an \<^verbatim>\<open>int\<close> bound.
\<close>

definition size_t_of_int :: "int \<Rightarrow> nat" where
  "size_t_of_int n = nat (n mod 2 ^ 64)"

subsection \<open>Data model\<close>

datatype PhotonField = CMB | IRB | CMB_IRB | OtherField int

record PDMode =
  channel :: int
  rate :: "double list"

record InteractionState =
  distance :: double
  channel_st :: int

text \<open>
  Modelled from the spec: the nucleus identifier and its helpers \<^verbatim>\<open>getNucleusId\<close>,
  \<^verbatim>\<open>getMassNumberFromNucleusId\<close> and \<^verbatim>\<open>getChargeNumberFromNucleusId\<close> are declared
  outside the listed sources; the identity of a nuclide is the pair (mass number A,
  charge number Z).
\<close>

type_synonym nucleus_id = "int \<times> int"

definition getNucleusId :: "int \<Rightarrow> int \<Rightarrow> nucleus_id" where
  "getNucleusId a z = (a, z)"

definition getMassNumberFromNucleusId :: "nucleus_id \<Rightarrow> int" where
  "getMassNumberFromNucleusId i = fst i"

definition getChargeNumberFromNucleusId :: "nucleus_id \<Rightarrow> int" where
  "getChargeNumberFromNucleusId i = snd i"

text \<open>
  Modelled from the spec: the host's particle (\<^verbatim>\<open>ParticleState\<close>, \<^verbatim>\<open>Candidate\<close>) is
  declared outside the listed sources. It offers: current nucleus identity and energy,
  redshift, an active flag, named pending-interaction records, and a list of secondary
  particles (identity, energy) appended by \<^verbatim>\<open>addSecondary\<close>.
\<close>

record ParticleState =
  id_nucleus :: nucleus_id
  energy :: double

record Candidate =
  current :: ParticleState
  redshift :: double
  active :: bool
  interactionStates :: "string \<rightharpoonup> InteractionState"
  secondaries :: "(nucleus_id \<times> double) list"

definition getMassNumber :: "ParticleState \<Rightarrow> int" where
  "getMassNumber s = getMassNumberFromNucleusId (id_nucleus s)"

definition getChargeNumber :: "ParticleState \<Rightarrow> int" where
  "getChargeNumber s = getChargeNumberFromNucleusId (id_nucleus s)"

definition getInteractionState :: "string \<Rightarrow> InteractionState \<Rightarrow> Candidate \<Rightarrow> InteractionState" where
  "getInteractionState name interaction c =
     (case interactionStates c name of Some i \<Rightarrow> i | None \<Rightarrow> interaction)"

definition setInteractionState :: "string \<Rightarrow> InteractionState \<Rightarrow> Candidate \<Rightarrow> Candidate" where
  "setInteractionState name interaction c =
     c\<lparr>interactionStates := (interactionStates c)(name \<mapsto> interaction)\<rparr>"

definition clearInteractionStates :: "Candidate \<Rightarrow> Candidate" where
  "clearInteractionStates c = c\<lparr>interactionStates := Map.empty\<rparr>"

definition addSecondary :: "nucleus_id \<Rightarrow> double \<Rightarrow> Candidate \<Rightarrow> Candidate" where
  "addSecondary i e c = c\<lparr>secondaries := secondaries c @ [(i, e)]\<rparr>"

record PhotoDisintegration =
  photonField :: PhotonField
  description :: string
  pdTable :: "PDMode list list"

text \<open>
  Modelled from the spec: the helper \<^verbatim>\<open>digit(value, d)\<close> is declared outside the listed
  sources; a digit-count is obtained by integer division by the power of ten followed by
  modulo 10. C++ integer division and remainder truncate toward zero.
\<close>

definition digit :: "int \<Rightarrow> int \<Rightarrow> int" where
  "digit v d = (v sdiv d) smod 10"

subsection \<open>performInteraction\<close>

text \<open>The loops \<^verbatim>\<open>for (size_t i = 0; i < n; i++) candidate->addSecondary(id, e)\<close>.\<close>

fun addSecondaries :: "nat \<Rightarrow> nucleus_id \<Rightarrow> double \<Rightarrow> Candidate \<Rightarrow> Candidate" where
  "addSecondaries 0 i e c = c"
| "addSecondaries (Suc n) i e c = addSecondaries n i e (addSecondary i e c)"

text \<open>
  \<^verbatim>\<open>dflt\<close> is the default-constructed \<^verbatim>\<open>InteractionState\<close> that
  \<^verbatim>\<open>getInteractionState\<close> leaves untouched when the candidate holds no record under the
  module's description.
\<close>

definition performInteraction :: "InteractionState \<Rightarrow> PhotoDisintegration \<Rightarrow> Candidate \<Rightarrow> Candidate" where
  "performInteraction dflt pd candidate =
     (let interaction = getInteractionState (description pd) dflt candidate;
          c1 = clearInteractionStates candidate;
          nNeutron = digit (channel_st interaction) 100000;
          nProton = digit (channel_st interaction) 10000;
          nH2 = digit (channel_st interaction) 1000;
          nH3 = digit (channel_st interaction) 100;
          nHe3 = digit (channel_st interaction) 10;
          nHe4 = digit (channel_st interaction) 1;
          dA = - nNeutron - nProton - 2 * nH2 - 3 * nH3 - 3 * nHe3 - 4 * nHe4;
          dZ = - nProton - nH2 - nH3 - 2 * nHe3 - 2 * nHe4;
          A = getMassNumber (current c1);
          Z = getChargeNumber (current c1);
          EpA = ddiv (energy (current c1)) (double_of_int A);
          nA = A + dA;
          c2 = (if 0 < nA
                then c1\<lparr>current := (current c1)\<lparr>id_nucleus := getNucleusId (A + dA) (Z + dZ),
                                                energy := dmul EpA (double_of_int (A + dA))\<rparr>\<rparr>
                else c1\<lparr>active := False\<rparr>);
          c3 = addSecondaries (size_t_of_int nNeutron) (getNucleusId 1 0) EpA c2;
          c4 = addSecondaries (size_t_of_int nProton) (getNucleusId 1 1) EpA c3;
          c5 = addSecondaries (size_t_of_int nH2) (getNucleusId 2 1) (dmul EpA (Fin 2)) c4;
          c6 = addSecondaries (size_t_of_int nH3) (getNucleusId 3 1) (dmul EpA (Fin 3)) c5;
          c7 = addSecondaries (size_t_of_int nHe3) (getNucleusId 3 2) (dmul EpA (Fin 3)) c6;
          c8 = addSecondaries (size_t_of_int nHe4) (getNucleusId 4 2) (dmul EpA (Fin 4)) c7
      in c8)"

text \<open>The secondaries that one call appends to the candidate's list.\<close>

definition emitted :: "InteractionState \<Rightarrow> PhotoDisintegration \<Rightarrow> Candidate \<Rightarrow> (nucleus_id \<times> double) list" where
  "emitted dflt pd c =
     drop (length (secondaries c)) (secondaries (performInteraction dflt pd c))"

text \<open>The mass and charge change of a channel code, lines 116 to 124 of the source.\<close>

definition deltaA :: "int \<Rightarrow> int" where
  "deltaA ch = - digit ch 100000 - digit ch 10000 - 2 * digit ch 1000
                 - 3 * digit ch 100 - 3 * digit ch 10 - 4 * digit ch 1"

definition deltaZ :: "int \<Rightarrow> int" where
  "deltaZ ch = - digit ch 10000 - digit ch 1000 - digit ch 100
                 - 2 * digit ch 10 - 2 * digit ch 1"

subsection \<open>Loading the rate table\<close>

text \<open>
  \<^verbatim>\<open>RuntimeError\<close> is a thrown \<^verbatim>\<open>std::runtime_error\<close>. \<^verbatim>\<open>OutOfBounds\<close> marks an
  access \<^verbatim>\<open>pdTable[k]\<close> outside the vector, which C++ leaves undefined.
\<close>

datatype error = RuntimeError string | OutOfBounds

text \<open>
  What the stream extractions \<^verbatim>\<open>lineStream >> ...\<close> of one line deliver: the two
  integers read into \<^verbatim>\<open>Z\<close> and \<^verbatim>\<open>N\<close>, the channel, and the value held by \<^verbatim>\<open>r\<close>
  after each of the 200 extractions. The extraction itself is the standard library's
  and is a parameter of the loader.
\<close>

record Extracted =
  ex_Z :: int
  ex_N :: int
  ex_channel :: int
  ex_r :: "nat \<Rightarrow> double"

text \<open>\<^verbatim>\<open>line[0]\<close>; on an empty \<^verbatim>\<open>std::string\<close> it is the terminating null character.\<close>

definition first_char :: "string \<Rightarrow> char" where
  "first_char line = (case line of [] \<Rightarrow> CHR 0x00 | c # _ \<Rightarrow> c)"

definition resize :: "nat \<Rightarrow> 'a list list \<Rightarrow> 'a list list" where
  "resize n t = take n t @ replicate (n - length t) []"

text \<open>The \<^verbatim>\<open>while (std::getline(infile, line))\<close> loop; \<^verbatim>\<open>Mpc\<close> is the unit constant.\<close>

fun loadLines :: "(string \<Rightarrow> Extracted) \<Rightarrow> double \<Rightarrow> string list \<Rightarrow> PDMode list list
    \<Rightarrow> error + PDMode list list" where
  "loadLines extract Mpc [] t = Inr t"
| "loadLines extract Mpc (line # rest) t =
     (if first_char line = CHR ''#'' then loadLines extract Mpc rest t
      else
        let Z = ex_Z (extract line);
            N = ex_N (extract line);
            pd = \<lparr>channel = ex_channel (extract line),
                  rate = map (\<lambda>i. ddiv (ex_r (extract line) i) Mpc) [0..<200]\<rparr>;
            k = Z * 31 + N
        in if 0 \<le> k \<and> k < int (length t)
           then loadLines extract Mpc rest (t[nat k := t ! nat k @ [pd]])
           else Inl OutOfBounds)"

text \<open>
  \<^verbatim>\<open>init(std::string filename)\<close>. The file system maps a path to the lines of the file,
  or to \<^verbatim>\<open>None\<close> when the file cannot be opened.
\<close>

definition init_file :: "(string \<Rightarrow> string list option) \<Rightarrow> (string \<Rightarrow> Extracted) \<Rightarrow> double
    \<Rightarrow> string \<Rightarrow> PhotoDisintegration \<Rightarrow> error + PhotoDisintegration" where
  "init_file files extract Mpc filename pd =
     (let t = resize (31 * 57) (pdTable pd)
      in case files filename of
           None \<Rightarrow> Inl (RuntimeError (''mpc::PhotoDisintegration: could not open file '' @ filename))
         | Some lines \<Rightarrow>
             (case loadLines extract Mpc lines t of
                Inl e \<Rightarrow> Inl e
              | Inr t' \<Rightarrow> Inr (pd\<lparr>pdTable := t'\<rparr>)))"

text \<open>\<^verbatim>\<open>init(PhotonField photonField)\<close>; \<^verbatim>\<open>getDataPath\<close> resolves a file name.\<close>

definition init_field :: "(string \<Rightarrow> string list option) \<Rightarrow> (string \<Rightarrow> Extracted) \<Rightarrow> double
    \<Rightarrow> (string \<Rightarrow> string) \<Rightarrow> PhotonField \<Rightarrow> PhotoDisintegration \<Rightarrow> error + PhotoDisintegration" where
  "init_field files extract Mpc getDataPath pf pd =
     (let pd1 = pd\<lparr>photonField := pf\<rparr>
      in case pf of
           CMB \<Rightarrow> init_file files extract Mpc (getDataPath ''photodis_CMB.txt'')
                    (pd1\<lparr>description := ''PhotoDisintegration: CMB''\<rparr>)
         | IRB \<Rightarrow> init_file files extract Mpc (getDataPath ''photodis_IRB.txt'')
                    (pd1\<lparr>description := ''PhotoDisintegration: IRB''\<rparr>)
         | CMB_IRB \<Rightarrow> init_file files extract Mpc (getDataPath ''photodis_CMB_IRB.txt'')
                    (pd1\<lparr>description := ''PhotoDisintegration: CMB and IRB''\<rparr>)
         | OtherField _ \<Rightarrow>
             Inl (RuntimeError ''mpc::PhotoDisintegration: unknown photon background''))"

text \<open>The table access \<^verbatim>\<open>pdTable[Z * 31 + N]\<close> of the two query functions.\<close>

definition pdTable_at :: "PhotoDisintegration \<Rightarrow> int \<Rightarrow> error + PDMode list" where
  "pdTable_at pd k =
     (if 0 \<le> k \<and> k < int (length (pdTable pd)) then Inr (pdTable pd ! nat k)
      else Inl OutOfBounds)"

subsection \<open>setNextInteraction\<close>

text \<open>
  Modelled from the spec: the random source \<^verbatim>\<open>Random::instance()\<close> is declared outside
  the listed sources; it delivers a sequence of uniform draws, one per call of
  \<^verbatim>\<open>rand()\<close>, and \<^verbatim>\<open>pos\<close> counts the draws consumed so far.
\<close>

record Random =
  draws :: "nat \<Rightarrow> double"
  pos :: nat

definition rand :: "Random \<Rightarrow> double \<times> Random" where
  "rand r = (draws r (pos r), r\<lparr>pos := Suc (pos r)\<rparr>)"

text \<open>
  The loop over \<^verbatim>\<open>pdModes\<close>, lines 92 to 99. \<^verbatim>\<open>interp\<close> is the external primitive
  \<^verbatim>\<open>interpolateEquidistant(x, lo, hi, samples)\<close>.
\<close>

fun pdLoop :: "(double \<Rightarrow> double \<Rightarrow> double \<Rightarrow> double list \<Rightarrow> double) \<Rightarrow> double
    \<Rightarrow> PDMode list \<Rightarrow> InteractionState \<Rightarrow> Random \<Rightarrow> InteractionState \<times> Random" where
  "pdLoop interp lg [] interaction random = (interaction, random)"
| "pdLoop interp lg (m # ms) interaction random =
     (let r = interp lg (Fin 6) (Fin 14) (rate m);
          u = fst (rand random);
          random' = snd (rand random);
          d = ddiv (dneg (dlog u)) r
      in if dgt d (distance interaction) then pdLoop interp lg ms interaction random'
         else pdLoop interp lg ms (interaction\<lparr>distance := d, channel_st := channel m\<rparr>) random')"

text \<open>
  \<^verbatim>\<open>setNextInteraction\<close>. External collaborators are parameters: \<^verbatim>\<open>getLorentzFactor\<close>
  of the particle state, \<^verbatim>\<open>interpolateEquidistant\<close> and \<^verbatim>\<open>photonFieldScaling\<close>. The
  result holds the returned flag, the candidate, the \<^verbatim>\<open>interaction\<close> reference argument
  and the random source after the call.
\<close>

definition setNextInteraction :: "(ParticleState \<Rightarrow> double)
    \<Rightarrow> (double \<Rightarrow> double \<Rightarrow> double \<Rightarrow> double list \<Rightarrow> double)
    \<Rightarrow> (PhotonField \<Rightarrow> double \<Rightarrow> double)
    \<Rightarrow> PhotoDisintegration \<Rightarrow> Candidate \<Rightarrow> InteractionState \<Rightarrow> Random
    \<Rightarrow> error + bool \<times> Candidate \<times> InteractionState \<times> Random" where
  "setNextInteraction getLorentzFactor interp photonFieldScaling pd candidate interaction random =
     (let A = getMassNumber (current candidate);
          Z = getChargeNumber (current candidate);
          N = A - Z
      in case pdTable_at pd (Z * 31 + N) of
           Inl e \<Rightarrow> Inl e
         | Inr pdModes \<Rightarrow>
             if length pdModes = 0 then Inr (False, candidate, interaction, random)
             else
               let z = redshift candidate;
                   lg = dlog10 (dmul (getLorentzFactor (current candidate)) (dadd (Fin 1) z))
               in if dle lg (Fin 6) \<or> dge lg (Fin 14)
                  then Inr (False, candidate, interaction, random)
                  else
                    let i0 = interaction\<lparr>distance := Fin DBL_MAX\<rparr>;
                        i1 = fst (pdLoop interp lg pdModes i0 random);
                        random' = snd (pdLoop interp lg pdModes i0 random);
                        i2 = i1\<lparr>distance := ddiv (distance i1) (photonFieldScaling (photonField pd) z)\<rparr>;
                        i3 = i2\<lparr>distance := dmul (distance i2) (dadd (Fin 1) z)\<rparr>
                    in Inr (True, setInteractionState (description pd) i3 candidate, i3, random'))"

text \<open>Names for the quantities of one call, used in the statements.\<close>

definition pdModes_of :: "PhotoDisintegration \<Rightarrow> Candidate \<Rightarrow> error + PDMode list" where
  "pdModes_of pd c =
     pdTable_at pd (getChargeNumber (current c) * 31
                    + (getMassNumber (current c) - getChargeNumber (current c)))"

definition lg_of :: "(ParticleState \<Rightarrow> double) \<Rightarrow> Candidate \<Rightarrow> double" where
  "lg_of getLorentzFactor c =
     dlog10 (dmul (getLorentzFactor (current c)) (dadd (Fin 1) (redshift c)))"

text \<open>The free path sampled for the \<open>i\<close>-th channel: \<open>- ln u\<^sub>i / r\<^sub>i\<close>.\<close>

definition sampled :: "(double \<Rightarrow> double \<Rightarrow> double \<Rightarrow> double list \<Rightarrow> double) \<Rightarrow> double
    \<Rightarrow> PDMode list \<Rightarrow> Random \<Rightarrow> nat \<Rightarrow> double" where
  "sampled interp lg ms random i =
     ddiv (dneg (dlog (draws random (pos random + i))))
          (interp lg (Fin 6) (Fin 14) (rate (ms ! i)))"

subsection \<open>energyLossLength\<close>

fun lossLoop :: "(double \<Rightarrow> double \<Rightarrow> double \<Rightarrow> double list \<Rightarrow> double) \<Rightarrow> double \<Rightarrow> int
    \<Rightarrow> PDMode list \<Rightarrow> double \<Rightarrow> double" where
  "lossLoop interp lg A [] lossRate = lossRate"
| "lossLoop interp lg A (m # ms) lossRate =
     (let r = interp lg (Fin 6) (Fin 14) (rate m);
          channel = channel m;
          nN = digit channel 100000;
          nP = digit channel 10000;
          nH2 = digit channel 1000;
          nH3 = digit channel 100;
          nHe3 = digit channel 10;
          nHe4 = digit channel 1;
          relativeEnergyLoss =
            ddiv (double_of_int (nN + nP + 2 * nH2 + 3 * nH3 + 3 * nHe3 + 4 * nHe4))
                 (double_of_int A)
      in lossLoop interp lg A ms (dadd lossRate (dmul r relativeEnergyLoss)))"

text \<open>
  \<^verbatim>\<open>energyLossLength\<close>. \<^verbatim>\<open>getNucleusMass\<close> and the constant \<^verbatim>\<open>c_squared\<close> are external.
\<close>

definition energyLossLength :: "(nucleus_id \<Rightarrow> double) \<Rightarrow> double
    \<Rightarrow> (double \<Rightarrow> double \<Rightarrow> double \<Rightarrow> double list \<Rightarrow> double)
    \<Rightarrow> PhotoDisintegration \<Rightarrow> nucleus_id \<Rightarrow> double \<Rightarrow> error + double" where
  "energyLossLength getNucleusMass c_squared interp pd i E =
     (let A = getMassNumberFromNucleusId i;
          Z = getChargeNumberFromNucleusId i;
          N = A - Z
      in case pdTable_at pd (Z * 31 + N) of
           Inl e \<Rightarrow> Inl e
         | Inr pdModes \<Rightarrow>
             if length pdModes = 0 then Inr (Fin DBL_MAX)
             else
               let lg = dlog10 (ddiv E (dmul (getNucleusMass i) c_squared))
               in if dle lg (Fin 6) \<or> dge lg (Fin 14) then Inr (Fin DBL_MAX)
                  else Inr (ddiv (Fin 1) (lossLoop interp lg A pdModes (Fin 0))))"

text \<open>The number of nucleons a channel strips: \<open>n + p + 2 d2 + 3 d3 + 3 he3 + 4 he4\<close>.\<close>

definition stripped :: "int \<Rightarrow> int" where
  "stripped ch = digit ch 100000 + digit ch 10000 + 2 * digit ch 1000
                 + 3 * digit ch 100 + 3 * digit ch 10 + 4 * digit ch 1"

subsection \<open>Example inputs\<close>

definition ex_pd :: PhotoDisintegration where
  "ex_pd = \<lparr>photonField = CMB, description = ''PhotoDisintegration: CMB'', pdTable = []\<rparr>"

definition ex_dflt :: InteractionState where
  "ex_dflt = \<lparr>distance = Fin 0, channel_st = 0\<rparr>"

definition ex_iron :: Candidate where
  "ex_iron = \<lparr>current = \<lparr>id_nucleus = getNucleusId 56 26, energy = Fin 112\<rparr>,
      redshift = Fin 0, active = True,
      interactionStates = [''PhotoDisintegration: CMB'' \<mapsto> \<lparr>distance = Fin 1, channel_st = 10000\<rparr>],
      secondaries = []\<rparr>"

definition ex_helium :: Candidate where
  "ex_helium = \<lparr>current = \<lparr>id_nucleus = getNucleusId 4 2, energy = Fin 8\<rparr>,
      redshift = Fin 0, active = True,
      interactionStates = [''PhotoDisintegration: CMB'' \<mapsto> \<lparr>distance = Fin 1, channel_st = 1\<rparr>],
      secondaries = []\<rparr>"

definition ex_modes :: "PDMode list" where
  "ex_modes = [\<lparr>channel = 100000, rate = replicate 200 (Fin 1)\<rparr>,
               \<lparr>channel = 10000, rate = replicate 200 (Fin 1)\<rparr>]"

definition ex_pd_iron :: PhotoDisintegration where
  "ex_pd_iron = \<lparr>photonField = CMB, description = ''PhotoDisintegration: CMB'',
                 pdTable = (replicate (31 * 57) [])[836 := ex_modes]\<rparr>"

definition ex_interp :: "double \<Rightarrow> double \<Rightarrow> double \<Rightarrow> double list \<Rightarrow> double" where
  "ex_interp x lo hi ys = ys ! 0"

definition ex_scale :: "PhotonField \<Rightarrow> double \<Rightarrow> double" where
  "ex_scale pf z = dmul (dadd (Fin 1) z) (dmul (dadd (Fin 1) z) (dadd (Fin 1) z))"

definition ex_ones :: Random where
  "ex_ones = \<lparr>draws = (\<lambda>n. Fin 1), pos = 0\<rparr>"


definition ex_draws :: Random where
  "ex_draws = \<lparr>draws = (\<lambda>n. if n = 0 then Fin (exp (- 2)) else Fin (exp (- 1))), pos = 0\<rparr>"

definition ex_zero_modes :: "PDMode list" where
  "ex_zero_modes = [\<lparr>channel = 100000, rate = replicate 200 (Fin 0)\<rparr>]"

definition ex_pd_zero :: PhotoDisintegration where
  "ex_pd_zero = \<lparr>photonField = CMB, description = ''PhotoDisintegration: CMB'',
                 pdTable = (replicate (31 * 57) [])[836 := ex_zero_modes]\<rparr>"

definition ex_extract :: "string \<Rightarrow> Extracted" where
  "ex_extract line =
     (if line = ''26 56 10000''
      then \<lparr>ex_Z = 26, ex_N = 56, ex_channel = 10000, ex_r = (\<lambda>i. Fin 2)\<rparr>
      else \<lparr>ex_Z = 2, ex_N = 4, ex_channel = 1, ex_r = (\<lambda>i. Fin 2)\<rparr>)"

definition ex_files_iron :: "string \<Rightarrow> string list option" where
  "ex_files_iron path =
     (if path = ''photodis_CMB.txt'' then Some [''# Z A channel rates'', ''26 56 10000'']
      else None)"



section \<open>Properties\<close>

subsection \<open>Digits and secondaries\<close>

lemma digit_nonneg:
  assumes "0 \<le> v" and "0 < d"
  shows "digit v d = (v div d) mod 10"
proof -
  have "v sdiv d = v div d"
    using assms by (simp add: signed_divide_int_def sgn_if)
  moreover have "0 \<le> v div d"
    using assms by (simp add: pos_imp_zdiv_nonneg_iff)
  ultimately show ?thesis
    by (simp add: digit_def signed_modulo_int_def sgn_if)
qed

lemma digit_range:
  assumes "0 \<le> v" and "0 < d"
  shows "0 \<le> digit v d \<and> digit v d \<le> 9"
  using assms by (simp add: digit_nonneg)

lemma size_t_of_digit:
  assumes "0 \<le> v" and "0 < d"
  shows "int (size_t_of_int (digit v d)) = digit v d"
  using digit_range [OF assms] by (simp add: size_t_of_int_def)

lemma secondaries_addSecondaries:
  "secondaries (addSecondaries n i e c) = secondaries c @ replicate n (i, e)"
  by (induction n arbitrary: c) (simp_all add: addSecondary_def replicate_app_Cons_same)

lemma current_addSecondaries [simp]:
  "current (addSecondaries n i e c) = current c"
  by (induction n arbitrary: c) (simp_all add: addSecondary_def)

lemma active_addSecondaries [simp]:
  "active (addSecondaries n i e c) = active c"
  by (induction n arbitrary: c) (simp_all add: addSecondary_def)

lemma emitted_eq:
  "emitted dflt pd c =
     (let ch = channel_st (getInteractionState (description pd) dflt c);
          EpA = ddiv (energy (current c)) (double_of_int (getMassNumber (current c)))
      in replicate (size_t_of_int (digit ch 100000)) (getNucleusId 1 0, EpA)
       @ replicate (size_t_of_int (digit ch 10000)) (getNucleusId 1 1, EpA)
       @ replicate (size_t_of_int (digit ch 1000)) (getNucleusId 2 1, dmul EpA (Fin 2))
       @ replicate (size_t_of_int (digit ch 100)) (getNucleusId 3 1, dmul EpA (Fin 3))
       @ replicate (size_t_of_int (digit ch 10)) (getNucleusId 3 2, dmul EpA (Fin 3))
       @ replicate (size_t_of_int (digit ch 1)) (getNucleusId 4 2, dmul EpA (Fin 4)))"
  by (simp add: emitted_def performInteraction_def Let_def secondaries_addSecondaries
      clearInteractionStates_def)

lemma dsum_map_Fin: "dsum (map Fin xs) = Fin (sum_list xs)"
  by (induction xs) simp_all

lemma snd_emitted_Fin:
  assumes "energy (current c) = Fin e" and "getMassNumber (current c) \<noteq> 0"
    and "0 \<le> channel_st (getInteractionState (description pd) dflt c)"
  shows "map snd (emitted dflt pd c) =
     map Fin (let ch = channel_st (getInteractionState (description pd) dflt c);
          epa = e / real_of_int (getMassNumber (current c))
      in replicate (nat (digit ch 100000)) epa
       @ replicate (nat (digit ch 10000)) epa
       @ replicate (nat (digit ch 1000)) (epa * 2)
       @ replicate (nat (digit ch 100)) (epa * 3)
       @ replicate (nat (digit ch 10)) (epa * 3)
       @ replicate (nat (digit ch 1)) (epa * 4))"
proof -
  have s: "size_t_of_int (digit (channel_st (getInteractionState (description pd) dflt c)) d)
      = nat (digit (channel_st (getInteractionState (description pd) dflt c)) d)" if "0 < d" for d
    using size_t_of_digit [OF assms(3) that] by simp
  show ?thesis
    using assms(1,2) by (simp add: emitted_eq Let_def s double_of_int_def)
qed

lemma digit_numeral_simps [simp]:
  "digit 10000 100000 = 0" "digit 10000 10000 = 1" "digit 10000 1000 = 0"
  "digit 10000 100 = 0" "digit 10000 10 = 0" "digit 10000 1 = 0"
  "digit 1 100000 = 0" "digit 1 10000 = 0" "digit 1 1000 = 0"
  "digit 1 100 = 0" "digit 1 10 = 0" "digit 1 1 = 1"
  by (simp_all add: digit_def signed_divide_int_def signed_modulo_int_def)

subsection \<open>Order on doubles, the selection loop, the loss loop\<close>

lemma dgt_irrefl: "\<not> dgt a a"
  by (cases a) simp_all

lemma dgt_asym: "dgt a b \<Longrightarrow> \<not> dgt b a"
  by (cases a; cases b) simp_all

lemma not_dgt_trans:
  "a \<noteq> NaN \<Longrightarrow> b \<noteq> NaN \<Longrightarrow> c \<noteq> NaN \<Longrightarrow> \<not> dgt a b \<Longrightarrow> \<not> dgt b c \<Longrightarrow> \<not> dgt a c"
  by (cases a; cases b; cases c) simp_all

lemma not_dgt_below:
  "a \<noteq> NaN \<Longrightarrow> \<not> dgt a b \<Longrightarrow> dgt d b \<Longrightarrow> \<not> dgt a d"
  by (cases a; cases b; cases d) simp_all

lemma sampled_Cons_0:
  "sampled interp lg (m # ms) rnd 0
     = ddiv (dneg (dlog (fst (rand rnd)))) (interp lg (Fin 6) (Fin 14) (rate m))"
  by (simp add: sampled_def rand_def)

lemma sampled_Cons_Suc:
  "sampled interp lg (m # ms) rnd (Suc i) = sampled interp lg ms (snd (rand rnd)) i"
  by (simp add: sampled_def rand_def)

lemma pdLoop_random:
  "snd (pdLoop interp lg ms st rnd) = rnd\<lparr>pos := pos rnd + length ms\<rparr>"
  by (induction ms arbitrary: st rnd) (simp_all add: Let_def rand_def)

lemma pdLoop_select:
  assumes "\<forall>i<length ms. sampled interp lg ms rnd i \<noteq> NaN"
    and "distance st \<noteq> NaN"
  shows "((\<forall>i<length ms. dgt (sampled interp lg ms rnd i) (distance st))
            \<and> fst (pdLoop interp lg ms st rnd) = st)
       \<or> (\<exists>i<length ms.
             fst (pdLoop interp lg ms st rnd)
               = st\<lparr>distance := sampled interp lg ms rnd i, channel_st := channel (ms ! i)\<rparr>
           \<and> \<not> dgt (sampled interp lg ms rnd i) (distance st)
           \<and> (\<forall>j<length ms. \<not> dgt (sampled interp lg ms rnd i) (sampled interp lg ms rnd j))
           \<and> (\<forall>j<length ms. i < j \<longrightarrow> dgt (sampled interp lg ms rnd j) (sampled interp lg ms rnd i)))"
  using assms
proof (induction ms arbitrary: st rnd)
  case Nil
  then show ?case by simp
next
  case (Cons m ms)
  let ?S = "sampled interp lg (m # ms) rnd"
  let ?T = "sampled interp lg ms (snd (rand rnd))"
  let ?d = "?S 0"
  have ST: "?S (Suc i) = ?T i" for i
    by (rule sampled_Cons_Suc)
  have nanT: "\<forall>i<length ms. ?T i \<noteq> NaN"
    using Cons.prems(1) ST by (metis Suc_less_eq length_Cons)
  have nanS: "?S j \<noteq> NaN" if "j < length (m # ms)" for j
    using Cons.prems(1) that by blast
  have nand: "?d \<noteq> NaN"
    using Cons.prems(1) by simp
  show ?case
  proof (cases "dgt ?d (distance st)")
    case True
    then have step: "fst (pdLoop interp lg (m # ms) st rnd) = fst (pdLoop interp lg ms st (snd (rand rnd)))"
      by (simp add: Let_def sampled_Cons_0)
    from Cons.IH [OF nanT Cons.prems(2)]
    show ?thesis
    proof (elim disjE conjE exE)
      assume a: "\<forall>i<length ms. dgt (?T i) (distance st)"
        and b: "fst (pdLoop interp lg ms st (snd (rand rnd))) = st"
      have "\<forall>i<length (m # ms). dgt (?S i) (distance st)"
      proof (intro allI impI)
        fix i assume "i < length (m # ms)"
        then show "dgt (?S i) (distance st)"
          using True a ST by (cases i) simp_all
      qed
      then show ?thesis using step b by simp
    next
      fix i
      assume i: "i < length ms"
        and r: "fst (pdLoop interp lg ms st (snd (rand rnd)))
                = st\<lparr>distance := ?T i, channel_st := channel (ms ! i)\<rparr>"
        and le0: "\<not> dgt (?T i) (distance st)"
        and mn: "\<forall>j<length ms. \<not> dgt (?T i) (?T j)"
        and lst: "\<forall>j<length ms. i < j \<longrightarrow> dgt (?T j) (?T i)"
      have m0: "\<not> dgt (?T i) ?d"
        using not_dgt_below [OF _ le0 True] nanT i by simp
      have mn': "\<forall>j<length (m # ms). \<not> dgt (?S (Suc i)) (?S j)"
      proof (intro allI impI)
        fix j assume "j < length (m # ms)"
        then show "\<not> dgt (?S (Suc i)) (?S j)"
          using m0 mn ST by (cases j) simp_all
      qed
      have lst': "\<forall>j<length (m # ms). Suc i < j \<longrightarrow> dgt (?S j) (?S (Suc i))"
      proof (intro allI impI)
        fix j assume "j < length (m # ms)" "Suc i < j"
        then show "dgt (?S j) (?S (Suc i))"
          using lst ST by (cases j) simp_all
      qed
      have "Suc i < length (m # ms)" using i by simp
      moreover have "fst (pdLoop interp lg (m # ms) st rnd)
          = st\<lparr>distance := ?S (Suc i), channel_st := channel ((m # ms) ! Suc i)\<rparr>"
        using step r ST by simp
      moreover have "\<not> dgt (?S (Suc i)) (distance st)"
        using le0 ST by simp
      ultimately show ?thesis
        using mn' lst' by blast
    qed
  next
    case False
    let ?st1 = "st\<lparr>distance := ?d, channel_st := channel m\<rparr>"
    have step: "fst (pdLoop interp lg (m # ms) st rnd) = fst (pdLoop interp lg ms ?st1 (snd (rand rnd)))"
      using False by (simp add: Let_def sampled_Cons_0)
    have d1: "distance ?st1 = ?d" by simp
    have nan1: "distance ?st1 \<noteq> NaN" using nand by simp
    from Cons.IH [OF nanT nan1]
    show ?thesis
    proof (elim disjE conjE exE)
      assume a: "\<forall>i<length ms. dgt (?T i) (distance ?st1)"
        and b: "fst (pdLoop interp lg ms ?st1 (snd (rand rnd))) = ?st1"
      have mn': "\<forall>j<length (m # ms). \<not> dgt (?S 0) (?S j)"
      proof (intro allI impI)
        fix j assume "j < length (m # ms)"
        then show "\<not> dgt (?S 0) (?S j)"
          using a ST dgt_irrefl [of ?d] dgt_asym [of _ ?d] by (cases j) simp_all
      qed
      have lst': "\<forall>j<length (m # ms). 0 < j \<longrightarrow> dgt (?S j) (?S 0)"
      proof (intro allI impI)
        fix j assume "j < length (m # ms)" "0 < j"
        then show "dgt (?S j) (?S 0)"
          using a ST by (cases j) simp_all
      qed
      have "0 < length (m # ms)" by simp
      moreover have "fst (pdLoop interp lg (m # ms) st rnd)
          = st\<lparr>distance := ?S 0, channel_st := channel ((m # ms) ! 0)\<rparr>"
        using step b by simp
      ultimately show ?thesis
        using False mn' lst' by blast
    next
      fix i
      assume i: "i < length ms"
        and r: "fst (pdLoop interp lg ms ?st1 (snd (rand rnd)))
                = ?st1\<lparr>distance := ?T i, channel_st := channel (ms ! i)\<rparr>"
        and le0: "\<not> dgt (?T i) (distance ?st1)"
        and mn: "\<forall>j<length ms. \<not> dgt (?T i) (?T j)"
        and lst: "\<forall>j<length ms. i < j \<longrightarrow> dgt (?T j) (?T i)"
      have m0: "\<not> dgt (?T i) ?d"
        using le0 by simp
      have nanTi: "?T i \<noteq> NaN" using nanT i by simp
      have le00: "\<not> dgt (?T i) (distance st)"
        using not_dgt_trans [OF nanTi nand Cons.prems(2) m0 False] .
      have mn': "\<forall>j<length (m # ms). \<not> dgt (?S (Suc i)) (?S j)"
      proof (intro allI impI)
        fix j assume "j < length (m # ms)"
        then show "\<not> dgt (?S (Suc i)) (?S j)"
          using m0 mn ST by (cases j) simp_all
      qed
      have lst': "\<forall>j<length (m # ms). Suc i < j \<longrightarrow> dgt (?S j) (?S (Suc i))"
      proof (intro allI impI)
        fix j assume "j < length (m # ms)" "Suc i < j"
        then show "dgt (?S j) (?S (Suc i))"
          using lst ST by (cases j) simp_all
      qed
      have "Suc i < length (m # ms)" using i by simp
      moreover have "fst (pdLoop interp lg (m # ms) st rnd)
          = st\<lparr>distance := ?S (Suc i), channel_st := channel ((m # ms) ! Suc i)\<rparr>"
        using step r ST by simp
      moreover have "\<not> dgt (?S (Suc i)) (distance st)"
        using le00 ST by simp
      ultimately show ?thesis
        using mn' lst' by blast
    qed
  qed
qed

lemma setNextInteraction_False:
  assumes "pdModes_of pd c = Inr ms"
    and "ms = [] \<or> dle (lg_of gLF c) (Fin 6) \<or> dge (lg_of gLF c) (Fin 14)"
  shows "setNextInteraction gLF interp scale pd c interaction random
           = Inr (False, c, interaction, random)"
  using assms
  by (auto simp: setNextInteraction_def pdModes_of_def lg_of_def Let_def)

lemma setNextInteraction_True:
  assumes "pdModes_of pd c = Inr ms" and "ms \<noteq> []"
    and "lg_of gLF c = lg" and "\<not> dle lg (Fin 6)" and "\<not> dge lg (Fin 14)"
    and "st = fst (pdLoop interp lg ms (interaction\<lparr>distance := Fin DBL_MAX\<rparr>) random)"
    and "st' = st\<lparr>distance := dmul (ddiv (distance st) (scale (photonField pd) (redshift c)))
                                    (dadd (Fin 1) (redshift c))\<rparr>"
  shows "setNextInteraction gLF interp scale pd c interaction random
           = Inr (True, setInteractionState (description pd) st' c, st',
                  random\<lparr>pos := pos random + length ms\<rparr>)"
  using assms
  by (simp add: setNextInteraction_def pdModes_of_def lg_of_def Let_def pdLoop_random)

lemma pdLoop_minimum:
  assumes "\<forall>i<length ms. sampled interp lg ms random i \<noteq> NaN"
    and "\<exists>i<length ms. \<not> dgt (sampled interp lg ms random i) (Fin DBL_MAX)"
  shows "\<exists>i<length ms.
           fst (pdLoop interp lg ms (interaction\<lparr>distance := Fin DBL_MAX\<rparr>) random)
             = interaction\<lparr>distance := sampled interp lg ms random i, channel_st := channel (ms ! i)\<rparr>
         \<and> (\<forall>j<length ms. \<not> dgt (sampled interp lg ms random i) (sampled interp lg ms random j))
         \<and> (\<forall>j<length ms. i < j \<longrightarrow> dgt (sampled interp lg ms random j) (sampled interp lg ms random i))"
proof -
  have "distance (interaction\<lparr>distance := Fin DBL_MAX\<rparr>) \<noteq> NaN" by simp
  from pdLoop_select [OF assms(1) this] assms(2)
  show ?thesis by auto
qed

lemma DBL_MAX_pos: "0 < DBL_MAX"
  by (simp add: DBL_MAX_def)

lemma ex_modes_of_iron: "pdModes_of ex_pd_iron ex_iron = Inr ex_modes"
  by (simp add: pdModes_of_def pdTable_at_def ex_pd_iron_def ex_iron_def getMassNumber_def
      getChargeNumber_def getNucleusId_def getMassNumberFromNucleusId_def
      getChargeNumberFromNucleusId_def)

lemma ex_lg_10: "lg_of (\<lambda>s. Fin (10 ^ 10)) ex_iron = Fin 10"
  using log_pow_cancel [of "10::real" 10] by (simp add: lg_of_def ex_iron_def)

lemma ex_modes_nonempty: "ex_modes \<noteq> []" "length ex_modes = 2"
  by (simp_all add: ex_modes_def)

lemma ex_sampled_ones:
  "sampled ex_interp (Fin 10) ex_modes ex_ones 0 = Fin 0"
  "sampled ex_interp (Fin 10) ex_modes ex_ones 1 = Fin 0"
  by (simp_all add: sampled_def ex_interp_def ex_modes_def ex_ones_def)

lemma ex_modes_of_helium: "pdModes_of ex_pd_iron ex_helium = Inr []"
  by (simp add: pdModes_of_def pdTable_at_def ex_pd_iron_def ex_helium_def getMassNumber_def
      getChargeNumber_def getNucleusId_def getMassNumberFromNucleusId_def
      getChargeNumberFromNucleusId_def)




lemma ex_zero_modes_of_iron: "pdModes_of ex_pd_zero ex_iron = Inr ex_zero_modes"
  by (simp add: pdModes_of_def pdTable_at_def ex_pd_zero_def ex_iron_def getMassNumber_def
      getChargeNumber_def getNucleusId_def getMassNumberFromNucleusId_def
      getChargeNumberFromNucleusId_def)

lemma resize_empty: "resize n [] = replicate n []"
  by (simp add: resize_def)

lemma lossLoop_Fin:
  assumes "A \<noteq> 0"
    and "\<forall>k\<in>set ms. \<exists>r. interp lg (Fin 6) (Fin 14) (rate k) = Fin r"
  shows "lossLoop interp lg A ms (Fin acc)
     = Fin (acc + (\<Sum>k\<leftarrow>ms. real_of_double (interp lg (Fin 6) (Fin 14) (rate k))
                              * (real_of_int (stripped (channel k)) / real_of_int A)))"
  using assms(2)
proof (induction ms arbitrary: acc)
  case Nil
  then show ?case by simp
next
  case (Cons k ks)
  from Cons.prems obtain r where r: "interp lg (Fin 6) (Fin 14) (rate k) = Fin r"
    by auto
  have rest: "\<forall>k\<in>set ks. \<exists>r. interp lg (Fin 6) (Fin 14) (rate k) = Fin r"
    using Cons.prems by simp
  show ?case
    using assms(1)
    by (simp add: Let_def r double_of_int_def stripped_def Cons.IH [OF rest] algebra_simps)
qed

lemma stripped_numeral_simps: "stripped 100000 = 1" "stripped 10000 = 1"
  by (simp_all add: stripped_def digit_def signed_divide_int_def signed_modulo_int_def)

subsection \<open>Claims about the loader\<close>

text \<open>
  C1. The claim: the loader reads the second field as the mass number \<open>A\<close> and appends the
  record to the list keyed by \<open>(Z, A - Z)\<close>. The source comments the second field as the
  mass number, yet appends at \<open>Z * 31 +\<close> that field, with no subtraction, while both query
  functions read \<open>Z * 31 + (A - Z)\<close>. For the data line of iron-56 written as
  \<open>Z = 26, A = 56\<close> the record lands in slot 862 (the key of \<open>Z = 26, N = 56\<close>); slot 836, the
  key \<open>(26, 30)\<close> of iron-56, stays empty and the query for iron-56 finds no channel. The
  record itself is as claimed: the channel code and 200 rates, each divided by the constant.
\<close>

theorem loader_keys_by_second_field:
  "init_file ex_files_iron ex_extract (Fin 2) ''photodis_CMB.txt'' ex_pd
     = Inr (ex_pd\<lparr>pdTable := (replicate (31 * 57) [])
                       [862 := [\<lparr>channel = 10000, rate = replicate 200 (Fin 1)\<rparr>]]\<rparr>)
   \<and> pdModes_of (ex_pd\<lparr>pdTable := (replicate (31 * 57) [])
                       [862 := [\<lparr>channel = 10000, rate = replicate 200 (Fin 1)\<rparr>]]\<rparr>) ex_iron
     = Inr []
   \<and> getChargeNumber (current ex_iron) = 26
   \<and> getMassNumber (current ex_iron) = 56"
proof -
  have ld: "init_file ex_files_iron ex_extract (Fin 2) ''photodis_CMB.txt'' ex_pd
     = Inr (ex_pd\<lparr>pdTable := (replicate (31 * 57) [])
                       [862 := [\<lparr>channel = 10000, rate = replicate 200 (Fin 1)\<rparr>]]\<rparr>)"
    by (simp add: init_file_def ex_files_iron_def ex_pd_def resize_empty first_char_def
        ex_extract_def Let_def map_replicate_const del: upt_rec_numeral)
  have q: "pdModes_of (ex_pd\<lparr>pdTable := (replicate (31 * 57) [])
                       [862 := [\<lparr>channel = 10000, rate = replicate 200 (Fin 1)\<rparr>]]\<rparr>) ex_iron
     = Inr []"
    by (simp add: pdModes_of_def pdTable_at_def ex_iron_def getMassNumber_def
      getChargeNumber_def getNucleusId_def getMassNumberFromNucleusId_def
      getChargeNumberFromNucleusId_def)
  have z: "getChargeNumber (current ex_iron) = 26" and a: "getMassNumber (current ex_iron) = 56"
    by (simp_all add: ex_iron_def getMassNumber_def
      getChargeNumber_def getNucleusId_def getMassNumberFromNucleusId_def
      getChargeNumberFromNucleusId_def)
  show ?thesis
    by (intro conjI ld q z a)
qed


subsection \<open>Claims about setNextInteraction\<close>

text \<open>
  C2, as stated, fails on a tie: with two channels of equal rate and two equal draws both
  sampled free paths are equal, and the call selects the second channel (code 10000), not
  the first-seen one (code 100000). The loop skips a channel only when its sample is
  strictly greater than the current best, so an equal sample replaces it.
\<close>

theorem tie_keeps_last_seen:
  "setNextInteraction (\<lambda>s. Fin (10 ^ 10)) ex_interp ex_scale ex_pd_iron ex_iron ex_dflt ex_ones
     = Inr (True,
            setInteractionState ''PhotoDisintegration: CMB'' \<lparr>distance = Fin 0, channel_st = 10000\<rparr> ex_iron,
            \<lparr>distance = Fin 0, channel_st = 10000\<rparr>,
            ex_ones\<lparr>pos := 2\<rparr>)
   \<and> sampled ex_interp (Fin 10) ex_modes ex_ones 0 = sampled ex_interp (Fin 10) ex_modes ex_ones 1
   \<and> channel (ex_modes ! 0) = 100000
   \<and> channel (ex_modes ! 1) = 10000"
proof -
  have loop: "fst (pdLoop ex_interp (Fin 10) ex_modes (ex_dflt\<lparr>distance := Fin DBL_MAX\<rparr>) ex_ones)
      = \<lparr>distance = Fin 0, channel_st = 10000\<rparr>"
    using DBL_MAX_pos
    by (simp add: ex_modes_def ex_interp_def ex_ones_def rand_def ex_dflt_def Let_def)
  have "setNextInteraction (\<lambda>s. Fin (10 ^ 10)) ex_interp ex_scale ex_pd_iron ex_iron ex_dflt ex_ones
     = Inr (True,
            setInteractionState (description ex_pd_iron) \<lparr>distance = Fin 0, channel_st = 10000\<rparr> ex_iron,
            \<lparr>distance = Fin 0, channel_st = 10000\<rparr>,
            ex_ones\<lparr>pos := pos ex_ones + length ex_modes\<rparr>)"
    by (rule setNextInteraction_True [where st = "\<lparr>distance = Fin 0, channel_st = 10000\<rparr>",
          OF ex_modes_of_iron ex_modes_nonempty(1) ex_lg_10])
       (simp_all add: loop dge_def ex_scale_def ex_iron_def)
  then have res: "setNextInteraction (\<lambda>s. Fin (10 ^ 10)) ex_interp ex_scale ex_pd_iron ex_iron ex_dflt ex_ones
     = Inr (True,
            setInteractionState ''PhotoDisintegration: CMB'' \<lparr>distance = Fin 0, channel_st = 10000\<rparr> ex_iron,
            \<lparr>distance = Fin 0, channel_st = 10000\<rparr>,
            ex_ones\<lparr>pos := 2\<rparr>)"
    by (simp add: ex_pd_iron_def ex_modes_nonempty ex_ones_def)
  have tie: "sampled ex_interp (Fin 10) ex_modes ex_ones 0 = sampled ex_interp (Fin 10) ex_modes ex_ones 1"
    by (simp only: ex_sampled_ones)
  have ch0: "channel (ex_modes ! 0) = 100000" and ch1: "channel (ex_modes ! 1) = 10000"
    by (simp_all add: ex_modes_def)
  show ?thesis
    by (intro conjI res tie ch0 ch1)
qed

text \<open>
  C2, amended. For every call with at least one channel record and \<open>lg\<close> strictly inside
  \<open>(6, 14)\<close>, one fresh draw is consumed per channel in channel order; when no sampled free
  path \<open>d\<^sub>i = - ln u\<^sub>i / r\<^sub>i\<close> is not-a-number and at least one does not exceed the initial
  sentinel, the selected channel is one whose sample is smallest (no sample is below it),
  and among equal minimal samples the last-seen channel is kept (every later sample is
  strictly greater).
\<close>

theorem selects_last_minimum:
  assumes "pdModes_of pd c = Inr ms" and "ms \<noteq> []"
    and "lg_of gLF c = Fin l" and "6 < l" and "l < 14"
    and "\<forall>i<length ms. sampled interp (Fin l) ms random i \<noteq> NaN"
    and "\<exists>i<length ms. \<not> dgt (sampled interp (Fin l) ms random i) (Fin DBL_MAX)"
  shows "\<exists>i<length ms. \<exists>st'.
           setNextInteraction gLF interp scale pd c interaction random
             = Inr (True, setInteractionState (description pd) st' c, st',
                    random\<lparr>pos := pos random + length ms\<rparr>)
         \<and> channel_st st' = channel (ms ! i)
         \<and> (\<forall>j<length ms. \<not> dgt (sampled interp (Fin l) ms random i)
                                   (sampled interp (Fin l) ms random j))
         \<and> (\<forall>j<length ms. i < j \<longrightarrow> dgt (sampled interp (Fin l) ms random j)
                                            (sampled interp (Fin l) ms random i))"
proof -
  from pdLoop_minimum [OF assms(6,7), of interaction]
  obtain i where i: "i < length ms"
    and loop: "fst (pdLoop interp (Fin l) ms (interaction\<lparr>distance := Fin DBL_MAX\<rparr>) random)
             = interaction\<lparr>distance := sampled interp (Fin l) ms random i,
                            channel_st := channel (ms ! i)\<rparr>"
    and mn: "\<forall>j<length ms. \<not> dgt (sampled interp (Fin l) ms random i)
                                   (sampled interp (Fin l) ms random j)"
    and lst: "\<forall>j<length ms. i < j \<longrightarrow> dgt (sampled interp (Fin l) ms random j)
                                            (sampled interp (Fin l) ms random i)"
    by blast
  have r1: "\<not> dle (Fin l) (Fin 6)" and r2: "\<not> dge (Fin l) (Fin 14)"
    using assms(4,5) by (simp_all add: dge_def)
  let ?st = "fst (pdLoop interp (Fin l) ms (interaction\<lparr>distance := Fin DBL_MAX\<rparr>) random)"
  let ?st' = "?st\<lparr>distance := dmul (ddiv (distance ?st) (scale (photonField pd) (redshift c)))
                                    (dadd (Fin 1) (redshift c))\<rparr>"
  have res: "setNextInteraction gLF interp scale pd c interaction random
             = Inr (True, setInteractionState (description pd) ?st' c, ?st',
                    random\<lparr>pos := pos random + length ms\<rparr>)"
    by (rule setNextInteraction_True [OF assms(1,2,3) r1 r2 refl refl])
  have ch: "channel_st ?st' = channel (ms ! i)"
    by (simp add: loop)
  show ?thesis
    using i res ch mn lst by blast
qed

theorem selects_last_minimum_witness:
  "\<exists>i<2. \<exists>st'.
      setNextInteraction (\<lambda>s. Fin (10 ^ 10)) ex_interp ex_scale ex_pd_iron ex_iron ex_dflt ex_ones
        = Inr (True, setInteractionState (description ex_pd_iron) st' ex_iron, st',
               ex_ones\<lparr>pos := pos ex_ones + 2\<rparr>)
      \<and> channel_st st' = channel (ex_modes ! i)
      \<and> (\<forall>j<2. \<not> dgt (sampled ex_interp (Fin 10) ex_modes ex_ones i)
                        (sampled ex_interp (Fin 10) ex_modes ex_ones j))
      \<and> (\<forall>j<2. i < j \<longrightarrow> dgt (sampled ex_interp (Fin 10) ex_modes ex_ones j)
                                 (sampled ex_interp (Fin 10) ex_modes ex_ones i))"
proof -
  have smp: "sampled ex_interp (Fin 10) ex_modes ex_ones i = Fin 0" if "i < 2" for i
    using that by (simp add: sampled_def ex_interp_def ex_modes_def ex_ones_def nth_Cons')
  have h6: "\<forall>i<length ex_modes. sampled ex_interp (Fin 10) ex_modes ex_ones i \<noteq> NaN"
    by (simp add: ex_modes_nonempty smp)
  have h7: "\<exists>i<length ex_modes. \<not> dgt (sampled ex_interp (Fin 10) ex_modes ex_ones i) (Fin DBL_MAX)"
    using DBL_MAX_pos by (intro exI [of _ 0]) (simp add: ex_modes_nonempty smp)
  have a: "(6::real) < 10" and b: "(10::real) < 14" by simp_all
  show ?thesis
    using selects_last_minimum [OF ex_modes_of_iron ex_modes_nonempty(1) ex_lg_10 a b h6 h7,
        of ex_scale ex_dflt]
    by (simp only: ex_modes_nonempty)
qed

text \<open>
  C6. With a finite Lorentz factor \<open>g\<close> and redshift \<open>z\<close> of positive product
  \<open>g \<times> (1 + z)\<close>, the coordinate is \<open>lg = log\<^sub>1\<^sub>0 (g \<times> (1 + z))\<close>. The call returns false, with
  the candidate, the interaction argument and the random source untouched (no pending
  interaction stored, no draw consumed), when the channel list is empty or \<open>lg \<le> 6\<close> or
  \<open>lg \<ge> 14\<close>; for a non-empty list and \<open>6 < lg < 14\<close> it returns true and stores a pending
  interaction. The two outcomes differ, so false is returned exactly in the first case;
  the boundaries \<open>lg = 6\<close> and \<open>lg = 14\<close> are excluded.
\<close>

theorem selection_range:
  assumes "pdModes_of pd c = Inr ms"
    and "gLF (current c) = Fin g" and "redshift c = Fin z"
    and "0 < g * (1 + z)" and "l = log 10 (g * (1 + z))"
  shows "lg_of gLF c = Fin l
    \<and> (ms = [] \<or> l \<le> 6 \<or> 14 \<le> l \<longrightarrow>
          setNextInteraction gLF interp scale pd c interaction random
            = Inr (False, c, interaction, random))
    \<and> (ms \<noteq> [] \<and> 6 < l \<and> l < 14 \<longrightarrow>
          (\<exists>st'. setNextInteraction gLF interp scale pd c interaction random
                   = Inr (True, setInteractionState (description pd) st' c, st',
                          random\<lparr>pos := pos random + length ms\<rparr>)))"
proof -
  have lg: "lg_of gLF c = Fin l"
    using assms(2-5) by (simp add: lg_of_def)
  have no: "setNextInteraction gLF interp scale pd c interaction random
            = Inr (False, c, interaction, random)" if "ms = [] \<or> l \<le> 6 \<or> 14 \<le> l"
    using that by (intro setNextInteraction_False [OF assms(1)]) (auto simp: lg dge_def)
  have yes: "\<exists>st'. setNextInteraction gLF interp scale pd c interaction random
                   = Inr (True, setInteractionState (description pd) st' c, st',
                          random\<lparr>pos := pos random + length ms\<rparr>)"
    if "ms \<noteq> [] \<and> 6 < l \<and> l < 14"
  proof -
    have r1: "\<not> dle (Fin l) (Fin 6)" and r2: "\<not> dge (Fin l) (Fin 14)"
      using that by (simp_all add: dge_def)
    from that have ne: "ms \<noteq> []" by simp
    show ?thesis
      using setNextInteraction_True [OF assms(1) ne lg r1 r2 refl refl] by blast
  qed
  show ?thesis
    using lg no yes by blast
qed

theorem selection_range_witness:
  "setNextInteraction (\<lambda>s. Fin (10 ^ 10)) ex_interp ex_scale ex_pd_iron ex_helium ex_dflt ex_ones
     = Inr (False, ex_helium, ex_dflt, ex_ones)
   \<and> setNextInteraction (\<lambda>s. Fin (10 ^ 6)) ex_interp ex_scale ex_pd_iron ex_iron ex_dflt ex_ones
     = Inr (False, ex_iron, ex_dflt, ex_ones)
   \<and> setNextInteraction (\<lambda>s. Fin (10 ^ 14)) ex_interp ex_scale ex_pd_iron ex_iron ex_dflt ex_ones
     = Inr (False, ex_iron, ex_dflt, ex_ones)
   \<and> (\<exists>st'. setNextInteraction (\<lambda>s. Fin (10 ^ 10)) ex_interp ex_scale ex_pd_iron ex_iron ex_dflt ex_ones
          = Inr (True, setInteractionState (description ex_pd_iron) st' ex_iron, st',
                 ex_ones\<lparr>pos := pos ex_ones + length ex_modes\<rparr>))"
proof -
  have zh: "redshift ex_helium = Fin 0" and zi: "redshift ex_iron = Fin 0"
    by (simp_all add: ex_helium_def ex_iron_def)
  have l6: "(6::real) = log 10 (10 ^ 6 * (1 + 0))"
    and l10: "(10::real) = log 10 (10 ^ 10 * (1 + 0))"
    and l14: "(14::real) = log 10 (10 ^ 14 * (1 + 0))"
    using log_pow_cancel [of "10::real" 6] log_pow_cancel [of "10::real" 10]
      log_pow_cancel [of "10::real" 14] by simp_all
  have p6: "(0::real) < 10 ^ 6 * (1 + 0)" and p10: "(0::real) < 10 ^ 10 * (1 + 0)"
    and p14: "(0::real) < 10 ^ 14 * (1 + 0)" by simp_all
  show ?thesis
    using selection_range [where gLF = "\<lambda>s. Fin (10 ^ 10)" and g = "10 ^ 10" and interp = ex_interp
          and scale = ex_scale and interaction = ex_dflt and random = ex_ones,
          OF ex_modes_of_helium refl zh p10 l10]
      selection_range [where gLF = "\<lambda>s. Fin (10 ^ 6)" and g = "10 ^ 6" and interp = ex_interp
          and scale = ex_scale and interaction = ex_dflt and random = ex_ones,
          OF ex_modes_of_iron refl zi p6 l6]
      selection_range [where gLF = "\<lambda>s. Fin (10 ^ 14)" and g = "10 ^ 14" and interp = ex_interp
          and scale = ex_scale and interaction = ex_dflt and random = ex_ones,
          OF ex_modes_of_iron refl zi p14 l14]
      selection_range [where gLF = "\<lambda>s. Fin (10 ^ 10)" and g = "10 ^ 10" and interp = ex_interp
          and scale = ex_scale and interaction = ex_dflt and random = ex_ones,
          OF ex_modes_of_iron refl zi p10 l10]
      ex_modes_nonempty(1)
    by simp
qed



text \<open>
  C10. The claim: a call that returns true carries the channel code of one of the
  nuclide's records and the scaled minimum of the sampled free paths, also when every
  interpolated rate is zero. For iron-56 with one channel (code 100000) of rate zero and a
  draw \<open>u = exp (-2)\<close> the sampled free path is \<open>+\<infinity>\<close>, which is greater than the sentinel, so
  the loop selects nothing: the call still returns true and stores the channel code 0 that
  the interaction argument held on entry, with the sentinel as distance.
\<close>

theorem zero_rates_select_no_channel:
  "setNextInteraction (\<lambda>s. Fin (10 ^ 10)) ex_interp ex_scale ex_pd_zero ex_iron ex_dflt ex_draws
     = Inr (True,
            setInteractionState ''PhotoDisintegration: CMB'' \<lparr>distance = Fin DBL_MAX, channel_st = 0\<rparr> ex_iron,
            \<lparr>distance = Fin DBL_MAX, channel_st = 0\<rparr>,
            ex_draws\<lparr>pos := 1\<rparr>)
   \<and> sampled ex_interp (Fin 10) ex_zero_modes ex_draws 0 = PInf
   \<and> map channel ex_zero_modes = [100000]
   \<and> channel_st ex_dflt = 0"
proof -
  have smp: "sampled ex_interp (Fin 10) ex_zero_modes ex_draws 0 = PInf"
    by (simp add: sampled_def ex_interp_def ex_zero_modes_def ex_draws_def)
  have loop: "fst (pdLoop ex_interp (Fin 10) ex_zero_modes (ex_dflt\<lparr>distance := Fin DBL_MAX\<rparr>) ex_draws)
      = \<lparr>distance = Fin DBL_MAX, channel_st = 0\<rparr>"
    by (simp add: ex_zero_modes_def ex_interp_def ex_draws_def rand_def ex_dflt_def Let_def)
  have ne: "ex_zero_modes \<noteq> []" and len: "length ex_zero_modes = 1"
    by (simp_all add: ex_zero_modes_def)
  have "setNextInteraction (\<lambda>s. Fin (10 ^ 10)) ex_interp ex_scale ex_pd_zero ex_iron ex_dflt ex_draws
     = Inr (True,
            setInteractionState (description ex_pd_zero) \<lparr>distance = Fin DBL_MAX, channel_st = 0\<rparr> ex_iron,
            \<lparr>distance = Fin DBL_MAX, channel_st = 0\<rparr>,
            ex_draws\<lparr>pos := pos ex_draws + length ex_zero_modes\<rparr>)"
    by (rule setNextInteraction_True [where st = "\<lparr>distance = Fin DBL_MAX, channel_st = 0\<rparr>",
          OF ex_zero_modes_of_iron ne ex_lg_10])
       (simp_all add: loop dge_def ex_scale_def ex_iron_def)
  then have res: "setNextInteraction (\<lambda>s. Fin (10 ^ 10)) ex_interp ex_scale ex_pd_zero ex_iron ex_dflt ex_draws
     = Inr (True,
            setInteractionState ''PhotoDisintegration: CMB'' \<lparr>distance = Fin DBL_MAX, channel_st = 0\<rparr> ex_iron,
            \<lparr>distance = Fin DBL_MAX, channel_st = 0\<rparr>,
            ex_draws\<lparr>pos := 1\<rparr>)"
    by (simp add: ex_pd_zero_def len ex_draws_def)
  have chs: "map channel ex_zero_modes = [100000]"
    by (simp add: ex_zero_modes_def)
  have dch: "channel_st ex_dflt = 0"
    by (simp add: ex_dflt_def)
  show ?thesis
    by (intro conjI res smp chs dch)
qed

subsection \<open>Claims about performInteraction\<close>

text \<open>
  C4. For a non-negative channel code whose decoded counts leave \<open>A' = A + \<Delta>A > 0\<close>, and a
  finite current energy \<open>e\<close>, energy is conserved over the exact reals: with
  \<open>EpA = e / A\<close> taken before the mutation, the remnant carries \<open>EpA \<times> A'\<close>, every secondary
  carries \<open>EpA\<close> times its mass number, and the remnant's energy plus the sum of the
  secondaries' energies is \<open>EpA \<times> A\<close>, which is \<open>e\<close>.
\<close>

theorem energy_conserved:
  assumes "energy (current c) = Fin e"
    and "ch = channel_st (getInteractionState (description pd) dflt c)"
    and "0 \<le> ch"
    and "A = getMassNumber (current c)"
    and "0 < A + deltaA ch"
  shows "dadd (energy (current (performInteraction dflt pd c)))
              (dsum (map snd (emitted dflt pd c)))
         = Fin (e / real_of_int A * real_of_int A)
       \<and> energy (current (performInteraction dflt pd c))
         = Fin (e / real_of_int A * real_of_int (A + deltaA ch))
       \<and> e / real_of_int A * real_of_int A = e
       \<and> (\<forall>s\<in>set (emitted dflt pd c).
            snd s = Fin (e / real_of_int A * real_of_int (getMassNumberFromNucleusId (fst s))))"
proof -
  have d: "0 \<le> digit ch k \<and> digit ch k \<le> 9" if "0 < k" for k
    using digit_range [OF assms(3) that] .
  have dA: "deltaA ch \<le> 0"
    using d [of 100000] d [of 10000] d [of 1000] d [of 100] d [of 10] d [of 1]
    by (simp add: deltaA_def)
  then have Apos: "0 < A" using assms(5) by simp
  then have A0: "getMassNumber (current c) \<noteq> 0" using assms(4) by simp
  have en: "energy (current (performInteraction dflt pd c))
         = Fin (e / real_of_int A * real_of_int (A + deltaA ch))"
    using assms Apos
    by (simp add: performInteraction_def Let_def clearInteractionStates_def deltaA_def
        double_of_int_def)
  have sec: "dsum (map snd (emitted dflt pd c))
     = Fin (e / real_of_int A * real_of_int (- deltaA ch))"
    using d [of 100000] d [of 10000] d [of 1000] d [of 100] d [of 10] d [of 1]
    unfolding snd_emitted_Fin [OF assms(1) A0 assms(3) [unfolded assms(2)]] dsum_map_Fin
    by (simp add: Let_def assms(2) [symmetric] assms(4) [symmetric] sum_list_replicate
        deltaA_def algebra_simps)
  have tot: "dadd (energy (current (performInteraction dflt pd c)))
              (dsum (map snd (emitted dflt pd c))) = Fin (e / real_of_int A * real_of_int A)"
    by (simp add: en sec algebra_simps)
  have each: "\<forall>s\<in>set (emitted dflt pd c).
            snd s = Fin (e / real_of_int A * real_of_int (getMassNumberFromNucleusId (fst s)))"
    using Apos assms(1)
    by (auto simp: emitted_eq Let_def assms(4) [symmetric] double_of_int_def getNucleusId_def
        getMassNumberFromNucleusId_def)
  have one: "e / real_of_int A * real_of_int A = e"
    using Apos by simp
  show ?thesis
    by (intro conjI tot en one each)
qed

theorem energy_conserved_witness:
  "dadd (energy (current (performInteraction ex_dflt ex_pd ex_iron)))
        (dsum (map snd (emitted ex_dflt ex_pd ex_iron))) = Fin 112
   \<and> energy (current (performInteraction ex_dflt ex_pd ex_iron)) = Fin 110
   \<and> emitted ex_dflt ex_pd ex_iron = [(getNucleusId 1 1, Fin 2)]"
proof -
  have e: "energy (current ex_iron) = Fin 112"
    by (simp add: ex_iron_def)
  have ch: "(10000::int) = channel_st (getInteractionState (description ex_pd) ex_dflt ex_iron)"
    by (simp add: getInteractionState_def ex_pd_def ex_iron_def)
  have nn: "(0::int) \<le> 10000" by simp
  have A: "(56::int) = getMassNumber (current ex_iron)"
    by (simp add: ex_iron_def getMassNumber_def getNucleusId_def getMassNumberFromNucleusId_def)
  have dA: "deltaA 10000 = -1" by (simp add: deltaA_def)
  have pos: "0 < 56 + deltaA 10000" by (simp add: dA)
  have em: "emitted ex_dflt ex_pd ex_iron = [(getNucleusId 1 1, Fin 2)]"
    by (simp add: emitted_eq Let_def ch [symmetric] A [symmetric] e double_of_int_def
        size_t_of_int_def)
  show ?thesis
    using energy_conserved [OF e ch nn A pos] em by (simp add: dA)
qed



text \<open>
  C5. For a non-negative channel code the six digit-counts are obtained by division by
  the place value and modulo 10, \<open>\<Delta>A\<close> and \<open>\<Delta>Z\<close> are the weighted sums of the claim, and
  baryon number and charge are conserved: \<open>A + \<Delta>A\<close> plus the mass numbers of the emitted
  secondaries is \<open>A\<close>, \<open>Z + \<Delta>Z\<close> plus their charge numbers is \<open>Z\<close>; the secondaries are
  among neutron (1,0), proton (1,1), deuteron (2,1), triton (3,1), He-3 (3,2), He-4 (4,2),
  and a remnant with \<open>A + \<Delta>A > 0\<close> gets the identity \<open>(A + \<Delta>A, Z + \<Delta>Z)\<close>.
\<close>

theorem nucleon_conservation:
  assumes "ch = channel_st (getInteractionState (description pd) dflt c)"
    and "0 \<le> ch"
    and "A = getMassNumber (current c)"
    and "Z = getChargeNumber (current c)"
  shows "(A + deltaA ch) + (\<Sum>s\<leftarrow>emitted dflt pd c. getMassNumberFromNucleusId (fst s)) = A
    \<and> (Z + deltaZ ch) + (\<Sum>s\<leftarrow>emitted dflt pd c. getChargeNumberFromNucleusId (fst s)) = Z
    \<and> fst ` set (emitted dflt pd c) \<subseteq> {(1, 0), (1, 1), (2, 1), (3, 1), (3, 2), (4, 2)}
    \<and> (0 < A + deltaA ch \<longrightarrow>
         id_nucleus (current (performInteraction dflt pd c)) = (A + deltaA ch, Z + deltaZ ch))
    \<and> deltaA ch = - (ch div 100000 mod 10 + ch div 10000 mod 10 + 2 * (ch div 1000 mod 10)
         + 3 * (ch div 100 mod 10) + 3 * (ch div 10 mod 10) + 4 * (ch div 1 mod 10))
    \<and> deltaZ ch = - (ch div 10000 mod 10 + ch div 1000 mod 10 + ch div 100 mod 10
         + 2 * (ch div 10 mod 10) + 2 * (ch div 1 mod 10))"
proof -
  have s: "int (size_t_of_int (digit ch d)) = digit ch d" if "0 < d" for d
    using size_t_of_digit [OF assms(2) that] .
  have em: "emitted dflt pd c =
       replicate (size_t_of_int (digit ch 100000)) (getNucleusId 1 0, ddiv (energy (current c)) (double_of_int A))
       @ replicate (size_t_of_int (digit ch 10000)) (getNucleusId 1 1, ddiv (energy (current c)) (double_of_int A))
       @ replicate (size_t_of_int (digit ch 1000)) (getNucleusId 2 1, dmul (ddiv (energy (current c)) (double_of_int A)) (Fin 2))
       @ replicate (size_t_of_int (digit ch 100)) (getNucleusId 3 1, dmul (ddiv (energy (current c)) (double_of_int A)) (Fin 3))
       @ replicate (size_t_of_int (digit ch 10)) (getNucleusId 3 2, dmul (ddiv (energy (current c)) (double_of_int A)) (Fin 3))
       @ replicate (size_t_of_int (digit ch 1)) (getNucleusId 4 2, dmul (ddiv (energy (current c)) (double_of_int A)) (Fin 4))"
    by (simp add: emitted_eq Let_def assms(1,3))
  have m: "(\<Sum>s\<leftarrow>emitted dflt pd c. getMassNumberFromNucleusId (fst s)) = - deltaA ch"
    unfolding em
    by (simp add: sum_list_replicate getNucleusId_def getMassNumberFromNucleusId_def s deltaA_def)
  have z: "(\<Sum>s\<leftarrow>emitted dflt pd c. getChargeNumberFromNucleusId (fst s)) = - deltaZ ch"
    unfolding em
    by (simp add: sum_list_replicate getNucleusId_def getChargeNumberFromNucleusId_def s deltaZ_def)
  have ids: "fst ` set (emitted dflt pd c) \<subseteq> {(1, 0), (1, 1), (2, 1), (3, 1), (3, 2), (4, 2)}"
    unfolding em by (auto simp: getNucleusId_def)
  have rem: "0 < A + deltaA ch \<longrightarrow>
         id_nucleus (current (performInteraction dflt pd c)) = (A + deltaA ch, Z + deltaZ ch)"
    by (simp add: performInteraction_def Let_def clearInteractionStates_def deltaA_def deltaZ_def
        assms(1,3,4) getNucleusId_def)
  have dA: "deltaA ch = - (ch div 100000 mod 10 + ch div 10000 mod 10 + 2 * (ch div 1000 mod 10)
         + 3 * (ch div 100 mod 10) + 3 * (ch div 10 mod 10) + 4 * (ch div 1 mod 10))"
    using assms(2) by (simp add: deltaA_def digit_nonneg)
  have dZ: "deltaZ ch = - (ch div 10000 mod 10 + ch div 1000 mod 10 + ch div 100 mod 10
         + 2 * (ch div 10 mod 10) + 2 * (ch div 1 mod 10))"
    using assms(2) by (simp add: deltaZ_def digit_nonneg)
  have m': "(A + deltaA ch) + (\<Sum>s\<leftarrow>emitted dflt pd c. getMassNumberFromNucleusId (fst s)) = A"
    by (simp add: m)
  have z': "(Z + deltaZ ch) + (\<Sum>s\<leftarrow>emitted dflt pd c. getChargeNumberFromNucleusId (fst s)) = Z"
    by (simp add: z)
  show ?thesis
    by (intro conjI m' z' ids rem dA dZ)
qed

theorem nucleon_conservation_witness:
  "(55 + (\<Sum>s\<leftarrow>emitted ex_dflt ex_pd ex_iron. getMassNumberFromNucleusId (fst s)) = (56::int))
   \<and> (25 + (\<Sum>s\<leftarrow>emitted ex_dflt ex_pd ex_iron. getChargeNumberFromNucleusId (fst s)) = (26::int))
   \<and> id_nucleus (current (performInteraction ex_dflt ex_pd ex_iron)) = (55, 25)"
proof -
  have ch: "(10000::int) = channel_st (getInteractionState (description ex_pd) ex_dflt ex_iron)"
    by (simp add: getInteractionState_def ex_pd_def ex_iron_def)
  have nn: "(0::int) \<le> 10000" by simp
  have A: "(56::int) = getMassNumber (current ex_iron)"
    by (simp add: ex_iron_def getMassNumber_def getNucleusId_def getMassNumberFromNucleusId_def)
  have Z: "(26::int) = getChargeNumber (current ex_iron)"
    by (simp add: ex_iron_def getChargeNumber_def getNucleusId_def getChargeNumberFromNucleusId_def)
  have dA: "deltaA 10000 = -1" by (simp add: deltaA_def)
  have dZ: "deltaZ 10000 = -1" by (simp add: deltaZ_def)
  show ?thesis
    using nucleon_conservation [OF ch nn A Z] by (simp add: dA dZ)
qed

text \<open>
  C9. When the new mass number \<open>A' = A + \<Delta>A\<close> is not positive, performInteraction returns
  normally with the candidate deactivated and its current state (identity and energy)
  untouched; when \<open>A' > 0\<close> the identity becomes \<open>(A', Z + \<Delta>Z)\<close>, the energy becomes
  \<open>EpA \<times> A'\<close> with \<open>EpA\<close> the former energy divided by \<open>A\<close>, and the active flag is kept.
\<close>

theorem exhausted_nucleus:
  assumes "ch = channel_st (getInteractionState (description pd) dflt c)"
    and "A = getMassNumber (current c)"
    and "Z = getChargeNumber (current c)"
    and "c' = performInteraction dflt pd c"
  shows "(A + deltaA ch \<le> 0 \<longrightarrow> active c' = False \<and> current c' = current c)
    \<and> (0 < A + deltaA ch \<longrightarrow>
         id_nucleus (current c') = getNucleusId (A + deltaA ch) (Z + deltaZ ch)
         \<and> energy (current c')
           = dmul (ddiv (energy (current c)) (double_of_int A)) (double_of_int (A + deltaA ch))
         \<and> active c' = active c)"
  using assms
  by (simp add: performInteraction_def Let_def clearInteractionStates_def deltaA_def deltaZ_def)

theorem exhausted_nucleus_witness:
  "active (performInteraction ex_dflt ex_pd ex_helium) = False
   \<and> current (performInteraction ex_dflt ex_pd ex_helium) = current ex_helium
   \<and> id_nucleus (current (performInteraction ex_dflt ex_pd ex_iron)) = getNucleusId 55 25
   \<and> energy (current (performInteraction ex_dflt ex_pd ex_iron)) = Fin 110
   \<and> active (performInteraction ex_dflt ex_pd ex_iron) = True"
proof -
  have ch1: "(1::int) = channel_st (getInteractionState (description ex_pd) ex_dflt ex_helium)"
    by (simp add: getInteractionState_def ex_pd_def ex_helium_def)
  have A1: "(4::int) = getMassNumber (current ex_helium)"
    by (simp add: ex_helium_def getMassNumber_def getNucleusId_def getMassNumberFromNucleusId_def)
  have Z1: "(2::int) = getChargeNumber (current ex_helium)"
    by (simp add: ex_helium_def getChargeNumber_def getNucleusId_def getChargeNumberFromNucleusId_def)
  have ch2: "(10000::int) = channel_st (getInteractionState (description ex_pd) ex_dflt ex_iron)"
    by (simp add: getInteractionState_def ex_pd_def ex_iron_def)
  have A2: "(56::int) = getMassNumber (current ex_iron)"
    by (simp add: ex_iron_def getMassNumber_def getNucleusId_def getMassNumberFromNucleusId_def)
  have Z2: "(26::int) = getChargeNumber (current ex_iron)"
    by (simp add: ex_iron_def getChargeNumber_def getNucleusId_def getChargeNumberFromNucleusId_def)
  have d1: "deltaA 1 = -4" "deltaA 10000 = -1" "deltaZ 10000 = -1"
    by (simp_all add: deltaA_def deltaZ_def)
  have e: "energy (current ex_iron) = Fin 112" "active ex_iron = True"
    by (simp_all add: ex_iron_def)
  show ?thesis
    using exhausted_nucleus [OF ch1 A1 Z1 refl] exhausted_nucleus [OF ch2 A2 Z2 refl]
    by (simp add: d1 e double_of_int_def)
qed

subsection \<open>Claims about energyLossLength\<close>

text \<open>
  C8. energyLossLength takes no random source and returns none. For a nuclide with
  \<open>A \<noteq> 0\<close>, a finite energy \<open>e\<close> and rest-mass energy \<open>m\<close> with \<open>e / m > 0\<close>,
  \<open>lg = log\<^sub>1\<^sub>0 (e / m)\<close> and finite interpolated rates: when the channel list is empty or
  \<open>lg \<le> 6\<close> or \<open>lg \<ge> 14\<close> it returns the sentinel (the largest double); otherwise it
  returns \<open>1 / S\<close> with \<open>S\<close> the sum over the channels of the interpolated rate times
  \<open>(n + p + 2 d2 + 3 d3 + 3 he3 + 4 he4) / A\<close> (division of doubles: \<open>+\<infinity>\<close> when \<open>S = 0\<close>).
\<close>

theorem energy_loss_length:
  assumes "A = getMassNumberFromNucleusId i" and "Z = getChargeNumberFromNucleusId i"
    and "pdTable_at pd (Z * 31 + (A - Z)) = Inr ms"
    and "E = Fin e" and "dmul (getNucleusMass i) c_squared = Fin m"
    and "0 < e / m" and "l = log 10 (e / m)"
    and "A \<noteq> 0"
    and "\<forall>k\<in>set ms. \<exists>r. interp (Fin l) (Fin 6) (Fin 14) (rate k) = Fin r"
    and "S = (\<Sum>k\<leftarrow>ms. real_of_double (interp (Fin l) (Fin 6) (Fin 14) (rate k))
                         * (real_of_int (stripped (channel k)) / real_of_int A))"
  shows "(ms = [] \<or> l \<le> 6 \<or> 14 \<le> l \<longrightarrow>
            energyLossLength getNucleusMass c_squared interp pd i E = Inr (Fin DBL_MAX))
    \<and> (ms \<noteq> [] \<and> 6 < l \<and> l < 14 \<longrightarrow>
            energyLossLength getNucleusMass c_squared interp pd i E = Inr (ddiv (Fin 1) (Fin S)))
    \<and> (ms \<noteq> [] \<and> 6 < l \<and> l < 14 \<and> S \<noteq> 0 \<longrightarrow>
            energyLossLength getNucleusMass c_squared interp pd i E = Inr (Fin (1 / S)))"
proof -
  have m0: "m \<noteq> 0"
    using assms(6) by auto
  have lg: "dlog10 (ddiv E (dmul (getNucleusMass i) c_squared)) = Fin l"
    using assms(4-7) m0 by simp
  have tbl: "pdTable_at pd (getChargeNumberFromNucleusId i * 31
               + (getMassNumberFromNucleusId i - getChargeNumberFromNucleusId i)) = Inr ms"
    using assms(1-3) by simp
  have loop: "lossLoop interp (Fin l) (getMassNumberFromNucleusId i) ms (Fin 0) = Fin S"
    using lossLoop_Fin [where interp = interp and lg = "Fin l" and acc = 0, OF assms(8) assms(9)]
      assms(1,10) by simp
  have out: "energyLossLength getNucleusMass c_squared interp pd i E = Inr (Fin DBL_MAX)"
    if "ms = [] \<or> l \<le> 6 \<or> 14 \<le> l"
    using that tbl by (auto simp: energyLossLength_def Let_def lg dge_def)
  have inside: "energyLossLength getNucleusMass c_squared interp pd i E
      = Inr (ddiv (Fin 1) (Fin S))"
    if "ms \<noteq> [] \<and> 6 < l \<and> l < 14"
    using that tbl by (simp add: energyLossLength_def Let_def lg dge_def loop)
  have inv: "energyLossLength getNucleusMass c_squared interp pd i E = Inr (Fin (1 / S))"
    if "ms \<noteq> [] \<and> 6 < l \<and> l < 14 \<and> S \<noteq> 0"
    using that inside by simp
  show ?thesis
    using out inside inv by blast
qed

theorem energy_loss_length_witness:
  "energyLossLength (\<lambda>i. Fin 1) (Fin 1) ex_interp ex_pd_iron (getNucleusId 56 26) (Fin (10 ^ 10))
     = Inr (Fin 28)
   \<and> energyLossLength (\<lambda>i. Fin 1) (Fin 1) ex_interp ex_pd_iron (getNucleusId 56 26) (Fin (10 ^ 6))
     = Inr (Fin DBL_MAX)
   \<and> energyLossLength (\<lambda>i. Fin 1) (Fin 1) ex_interp ex_pd_iron (getNucleusId 56 26) (Fin (10 ^ 14))
     = Inr (Fin DBL_MAX)
   \<and> energyLossLength (\<lambda>i. Fin 1) (Fin 1) ex_interp ex_pd_iron (getNucleusId 4 2) (Fin (10 ^ 10))
     = Inr (Fin DBL_MAX)"
proof -
  have A: "(56::int) = getMassNumberFromNucleusId (getNucleusId 56 26)"
    and Z: "(26::int) = getChargeNumberFromNucleusId (getNucleusId 56 26)"
    and A4: "(4::int) = getMassNumberFromNucleusId (getNucleusId 4 2)"
    and Z4: "(2::int) = getChargeNumberFromNucleusId (getNucleusId 4 2)"
    by (simp_all add: getNucleusId_def getMassNumberFromNucleusId_def
        getChargeNumberFromNucleusId_def)
  have t: "pdTable_at ex_pd_iron (26 * 31 + (56 - 26)) = Inr ex_modes"
    and t4: "pdTable_at ex_pd_iron (2 * 31 + (4 - 2)) = Inr []"
    by (simp_all add: pdTable_at_def ex_pd_iron_def)
  have m: "dmul (Fin 1) (Fin 1) = Fin 1" by simp
  have p6: "(0::real) < 10 ^ 6 / 1" and p10: "(0::real) < 10 ^ 10 / 1"
    and p14: "(0::real) < 10 ^ 14 / 1" by simp_all
  have l6: "(6::real) = log 10 (10 ^ 6 / 1)"
    and l10: "(10::real) = log 10 (10 ^ 10 / 1)"
    and l14: "(14::real) = log 10 (10 ^ 14 / 1)"
    using log_pow_cancel [of "10::real" 6] log_pow_cancel [of "10::real" 10]
      log_pow_cancel [of "10::real" 14] by simp_all
  have n56: "(56::int) \<noteq> 0" and n4: "(4::int) \<noteq> 0" by simp_all
  have fin: "\<forall>k\<in>set ex_modes. \<exists>r. ex_interp (Fin l) (Fin 6) (Fin 14) (rate k) = Fin r" for l
    by (simp add: ex_modes_def ex_interp_def)
  have fin4: "\<forall>k\<in>set ([]::PDMode list). \<exists>r. ex_interp (Fin 10) (Fin 6) (Fin 14) (rate k) = Fin r"
    by simp
  have S: "(1 / 28 :: real) = (\<Sum>k\<leftarrow>ex_modes. real_of_double (ex_interp (Fin l) (Fin 6) (Fin 14) (rate k))
                         * (real_of_int (stripped (channel k)) / real_of_int 56))" for l
    by (simp add: ex_modes_def ex_interp_def stripped_numeral_simps)
  have S4: "(0 :: real) = (\<Sum>k\<leftarrow>([]::PDMode list). real_of_double (ex_interp (Fin 10) (Fin 6) (Fin 14) (rate k))
                         * (real_of_int (stripped (channel k)) / real_of_int 4))"
    by simp
  show ?thesis
    using energy_loss_length [where getNucleusMass = "\<lambda>i. Fin 1" and c_squared = "Fin 1"
          and interp = ex_interp,
          OF A Z t refl m p10 l10 n56 fin S]
      energy_loss_length [where getNucleusMass = "\<lambda>i. Fin 1" and c_squared = "Fin 1"
          and interp = ex_interp,
          OF A Z t refl m p6 l6 n56 fin S]
      energy_loss_length [where getNucleusMass = "\<lambda>i. Fin 1" and c_squared = "Fin 1"
          and interp = ex_interp,
          OF A Z t refl m p14 l14 n56 fin S]
      energy_loss_length [where getNucleusMass = "\<lambda>i. Fin 1" and c_squared = "Fin 1"
          and interp = ex_interp,
          OF A4 Z4 t4 refl m p10 l10 n4 fin4 S4]
      ex_modes_nonempty(1)
    by simp
qed

end
